theory Spec2Isabelle
  imports Complex_Main "HOL-Library.AList" "HOL-Library.Sublist"
begin

section \<open>Python values: strings, exceptions, results\<close>

text \<open>
  A Python \<^verbatim>\<open>str\<close> is a sequence of Unicode code points, so it is modelled as a list
  of naturals. \<open>ascii\<close> embeds the ASCII literals of the source; the Chinese literals
  of the source are written out as their code points.
\<close>

type_synonym ustr = "nat list"

definition ascii :: "string \<Rightarrow> ustr" where
  "ascii s = map of_char s"

text \<open>
  The exceptions the modelled code can meet. All of them but \<open>KeyboardInterrupt\<close> are
  subclasses of \<^verbatim>\<open>Exception\<close>, which is what \<^verbatim>\<open>except Exception\<close> catches.
\<close>

datatype exn =
    ValueError
  | TypeError
  | KeyError
  | EOFError
  | OSError
  | FileExistsError
  | FileNotFoundError
  | IsADirectoryError
  | RequestException
  | PandasError
  | KeyboardInterrupt

fun is_Exception :: "exn \<Rightarrow> bool" where
  "is_Exception KeyboardInterrupt = False"
| "is_Exception e = True"

datatype 'a outcome = Return 'a | Raise exn

text \<open>\<^verbatim>\<open>str(n)\<close> and \<^verbatim>\<open>f"{n}"\<close> for an integer: its decimal numeral.\<close>

fun digits_of :: "nat \<Rightarrow> ustr" where
  "digits_of n = (if n < 10 then [48 + n] else digits_of (n div 10) @ [48 + n mod 10])"

declare digits_of.simps [simp del]

definition str_int :: "int \<Rightarrow> ustr" where
  "str_int i = (if i < 0 then 45 # digits_of (nat (- i)) else digits_of (nat i))"

section \<open>The file system and the configuration\<close>

text \<open>
  The file system as far as the program uses it: a path names nothing, a directory, or a
  regular file with its text. Paths are compared as the program writes them: there is no
  normalisation and no working directory, so file names are taken to be plain (not
  empty, no \<^verbatim>\<open>.\<close> or \<^verbatim>\<open>..\<close> component, no doubled slash).
\<close>

datatype entry = Dir | File ustr

type_synonym filesystem = "ustr \<rightharpoonup> entry"

text \<open>config/settings.py: \<^verbatim>\<open>OUTPUT_DIR = 'data'\<close>,
  \<^verbatim>\<open>OUTPUT_FILENAME_PREFIX = 'beijing_rental_data'\<close>.\<close>

definition OUTPUT_DIR :: ustr where
  "OUTPUT_DIR = ascii ''data''"

definition OUTPUT_FILENAME_PREFIX :: ustr where
  "OUTPUT_FILENAME_PREFIX = ascii ''beijing_rental_data''"

text \<open>\<^verbatim>\<open>os.path.join(a, b)\<close> on POSIX, for two components: an absolute \<open>b\<close> replaces
  \<open>a\<close>; otherwise one slash separates them.\<close>

definition path_join :: "ustr \<Rightarrow> ustr \<Rightarrow> ustr" where
  "path_join a b =
     (if b \<noteq> [] \<and> hd b = 47 then b
      else if a = [] \<or> last a = 47 then a @ b
      else a @ [47] @ b)"

text \<open>The directory part of a path: what stands before its last slash (empty for a
  bare file name, which lives in the working directory).\<close>

definition parent_dir :: "ustr \<Rightarrow> ustr" where
  "parent_dir p = rev (drop 1 (dropWhile (\<lambda>c. c \<noteq> 47) (rev p)))"

text \<open>\<^verbatim>\<open>os.makedirs(d, exist_ok=True)\<close> for a one-component path: nothing happens when
  the directory exists, it is created when nothing is there, and a regular file of that
  name raises \<^verbatim>\<open>FileExistsError\<close>.\<close>

definition makedirs :: "filesystem \<Rightarrow> ustr \<Rightarrow> unit outcome \<times> filesystem" where
  "makedirs fs d =
     (case fs d of
        Some (File t) \<Rightarrow> (Raise FileExistsError, fs)
      | Some Dir \<Rightarrow> (Return (), fs)
      | None \<Rightarrow> (Return (), fs(d \<mapsto> Dir)))"

text \<open>\<^verbatim>\<open>os.path.exists(p)\<close>.\<close>

definition path_exists :: "filesystem \<Rightarrow> ustr \<Rightarrow> bool" where
  "path_exists fs p \<longleftrightarrow> fs p \<noteq> None"

text \<open>\<^verbatim>\<open>with open(p, 'a') as f: f.write(t)\<close>: the file is created when absent and the
  text goes after what it holds; a directory of that name raises.\<close>

definition append_text :: "filesystem \<Rightarrow> ustr \<Rightarrow> ustr \<Rightarrow> unit outcome \<times> filesystem" where
  "append_text fs p t =
     (case fs p of
        Some Dir \<Rightarrow> (Raise IsADirectoryError, fs)
      | Some (File old) \<Rightarrow> (Return (), fs(p \<mapsto> File (old @ t)))
      | None \<Rightarrow> (Return (), fs(p \<mapsto> File t)))"

section \<open>The crawl controller: \<^verbatim>\<open>LianjiaSpider.scrape_page_range\<close>\<close>

text \<open>
  The page fetcher \<^verbatim>\<open>scrape_page\<close> is a parameter: a function from the page number to
  the list of records of that page (it returns the empty list on every failure of its
  own). The loop's variables are the fields of \<open>crawl_state\<close>; \<open>fetched\<close> records the
  page numbers \<^verbatim>\<open>scrape_page\<close> was called with, in call order, and \<open>stopped_by_gap\<close>
  whether the loop was left by its \<^verbatim>\<open>break\<close>. The random delay after a page with
  records and the progress messages change none of these and are left out.
\<close>

record 'a crawl_state =
  all_listings :: "'a list"
  skipped_pages :: "int list"
  consecutive_empty_pages :: nat
  fetched :: "int list"
  stopped_by_gap :: bool

definition max_consecutive_empty :: nat where
  "max_consecutive_empty = 3"

definition crawl_init :: "'a crawl_state" where
  "crawl_init = \<lparr>all_listings = [], skipped_pages = [], consecutive_empty_pages = 0,
                 fetched = [], stopped_by_gap = False\<rparr>"

text \<open>The body of \<^verbatim>\<open>for page_num in range(start_page, end_page + 1)\<close>, over the pages
  still to come.\<close>

fun crawl_loop :: "(int \<Rightarrow> 'a list) \<Rightarrow> int list \<Rightarrow> 'a crawl_state \<Rightarrow> 'a crawl_state" where
  "crawl_loop scrape_page [] st = st"
| "crawl_loop scrape_page (page_num # rest) st =
     (let listings = scrape_page page_num;
          st1 = st\<lparr>fetched := fetched st @ [page_num]\<rparr>
      in if listings = [] then
           (let st2 = st1\<lparr>consecutive_empty_pages := consecutive_empty_pages st1 + 1,
                          skipped_pages := skipped_pages st1 @ [page_num]\<rparr>
            in if consecutive_empty_pages st2 \<ge> max_consecutive_empty
               then st2\<lparr>stopped_by_gap := True\<rparr>
               else crawl_loop scrape_page rest st2)
         else crawl_loop scrape_page rest
                (st1\<lparr>consecutive_empty_pages := 0,
                     all_listings := all_listings st1 @ listings\<rparr>))"

definition crawl :: "(int \<Rightarrow> 'a list) \<Rightarrow> int \<Rightarrow> int \<Rightarrow> 'a crawl_state" where
  "crawl scrape_page start_page end_page =
     crawl_loop scrape_page [start_page..end_page] crawl_init"

text \<open>\<^verbatim>\<open>save_skipped_pages\<close>: one page number per line, appended to the log under
  \<^verbatim>\<open>OUTPUT_DIR\<close>.\<close>

definition skipped_pages_path :: ustr where
  "skipped_pages_path =
     path_join OUTPUT_DIR (OUTPUT_FILENAME_PREFIX @ ascii ''_skipped_pages.txt'')"

definition skipped_lines :: "int list \<Rightarrow> ustr" where
  "skipped_lines pages = concat (map (\<lambda>page_num. str_int page_num @ [10]) pages)"

definition save_skipped_pages :: "filesystem \<Rightarrow> int list \<Rightarrow> unit outcome \<times> filesystem" where
  "save_skipped_pages fs pages =
     (if pages = [] then (Return (), fs)
      else case makedirs fs OUTPUT_DIR of
             (Raise e, fs1) \<Rightarrow> (Raise e, fs1)
           | (Return u, fs1) \<Rightarrow> append_text fs1 skipped_pages_path (skipped_lines pages))"

definition scrape_page_range ::
  "(int \<Rightarrow> 'a list) \<Rightarrow> filesystem \<Rightarrow> int \<Rightarrow> int \<Rightarrow> 'a list outcome \<times> filesystem" where
  "scrape_page_range scrape_page fs start_page end_page =
     (let st = crawl scrape_page start_page end_page
      in if skipped_pages st \<noteq> [] then
           (case save_skipped_pages fs (skipped_pages st) of
              (Raise e, fs1) \<Rightarrow> (Raise e, fs1)
            | (Return u, fs1) \<Rightarrow> (Return (all_listings st), fs1))
         else (Return (all_listings st), fs))"

text \<open>\<^verbatim>\<open>scrape_all(max_pages)\<close> with \<^verbatim>\<open>MAX_PAGES = 300\<close>; \<^verbatim>\<open>max_pages or MAX_PAGES\<close>
  takes the default for \<^verbatim>\<open>None\<close> and for 0.\<close>

definition MAX_PAGES :: int where
  "MAX_PAGES = 300"

definition scrape_all ::
  "(int \<Rightarrow> 'a list) \<Rightarrow> filesystem \<Rightarrow> int option \<Rightarrow> 'a list outcome \<times> filesystem" where
  "scrape_all scrape_page fs max_pages =
     scrape_page_range scrape_page fs 1
       (case max_pages of None \<Rightarrow> MAX_PAGES | Some n \<Rightarrow> if n = 0 then MAX_PAGES else n)"

section \<open>Markup: the parsed page\<close>

text \<open>
  A BeautifulSoup tree: a tag with its name, the values of its \<^verbatim>\<open>class\<close> attribute and
  its children, or a piece of text. Other attributes are not read by the program.
  Comments and the contents of script and style elements, which \<^verbatim>\<open>get_text\<close> leaves
  out, are not represented.
\<close>

datatype node = Tag ustr "ustr list" "node list" | NavigableString ustr

text \<open>Everything below a node, in document order.\<close>

fun descendants :: "node \<Rightarrow> node list" where
  "descendants (Tag name classes children) = concat (map (\<lambda>c. c # descendants c) children)"
| "descendants (NavigableString s) = []"

text \<open>The filter of \<^verbatim>\<open>find(name, class_=c)\<close>: a tag of that name, one of whose classes
  is \<open>c\<close> when a class is asked for.\<close>

fun matches :: "ustr \<Rightarrow> ustr option \<Rightarrow> node \<Rightarrow> bool" where
  "matches name cls (Tag n classes children) =
     (n = name \<and> (case cls of None \<Rightarrow> True | Some c \<Rightarrow> c \<in> set classes))"
| "matches name cls (NavigableString s) = False"

definition find_all :: "node \<Rightarrow> ustr \<Rightarrow> ustr option \<Rightarrow> node list" where
  "find_all elem name cls = filter (matches name cls) (descendants elem)"

text \<open>\<^verbatim>\<open>elem.find(...)\<close>: the first match in document order, or \<^verbatim>\<open>None\<close>. A tag is
  always true in a condition, so \<^verbatim>\<open>if elem:\<close> asks whether one was found.\<close>

definition find_one :: "node \<Rightarrow> ustr \<Rightarrow> ustr option \<Rightarrow> node option" where
  "find_one elem name cls =
     (case find_all elem name cls of [] \<Rightarrow> None | x # xs \<Rightarrow> Some x)"

text \<open>\<^verbatim>\<open>str.strip()\<close>: the characters for which \<^verbatim>\<open>str.isspace\<close> holds are removed at
  both ends.\<close>

definition isspace :: "nat \<Rightarrow> bool" where
  "isspace c \<longleftrightarrow>
     (9 \<le> c \<and> c \<le> 13) \<or> (28 \<le> c \<and> c \<le> 32) \<or> c = 133 \<or> c = 160 \<or> c = 5760
     \<or> (8192 \<le> c \<and> c \<le> 8202) \<or> c = 8232 \<or> c = 8233 \<or> c = 8239 \<or> c = 8287 \<or> c = 12288"

definition strip :: "ustr \<Rightarrow> ustr" where
  "strip s = rev (dropWhile isspace (rev (dropWhile isspace s)))"

fun strings :: "node list \<Rightarrow> ustr list" where
  "strings [] = []"
| "strings (NavigableString s # ns) = s # strings ns"
| "strings (Tag name classes children # ns) = strings ns"

text \<open>\<^verbatim>\<open>elem.get_text(strip=True)\<close>: the texts below the element, each stripped, the
  empty ones dropped, joined with nothing between them.\<close>

definition get_text :: "node \<Rightarrow> ustr" where
  "get_text elem = concat (filter (\<lambda>s. s \<noteq> []) (map strip (strings (descendants elem))))"

text \<open>\<^verbatim>\<open>sub in s\<close> for strings, and \<^verbatim>\<open>sep.join(xs)\<close>.\<close>

fun contains :: "ustr \<Rightarrow> ustr \<Rightarrow> bool" where
  "contains sub [] = (sub = [])"
| "contains sub (c # cs) = (take (length sub) (c # cs) = sub \<or> contains sub cs)"

fun join :: "ustr \<Rightarrow> ustr list \<Rightarrow> ustr" where
  "join sep [] = []"
| "join sep [x] = x"
| "join sep (x # y # ys) = x @ sep @ join sep (y # ys)"

section \<open>The field extractor: \<^verbatim>\<open>LianjiaSpider.parse_listing\<close>\<close>

text \<open>
  The values a record holds, and a record: a Python \<^verbatim>\<open>dict\<close> as the list of its items
  in insertion order. \<^verbatim>\<open>d[k] = v\<close> is \<open>AList.update k v d\<close> (the value is replaced in
  place, a new key goes to the end) and \<^verbatim>\<open>d.get(k)\<close> is \<open>map_of d k\<close>. The type \<open>'f\<close>
  stands for the floating-point numbers.
\<close>

datatype 'f pyval = VStr ustr | VInt int | VFloat 'f

type_synonym 'f listing = "(ustr \<times> 'f pyval) list"

text \<open>
  The library functions whose results the extractor only passes on are parameters:
  \<^verbatim>\<open>int(s)\<close> and \<^verbatim>\<open>float(s)\<close> (\<open>None\<close> stands for \<^verbatim>\<open>ValueError\<close>), and
  \<^verbatim>\<open>re.search\<close> with each of the four patterns of the source, giving the captured
  groups of the first match (\<open>None\<close> when there is none):
  \<^item> \<open>search_area\<close>: digits, an optional dot, digits, then the square-metre sign; group 1;
  \<^item> \<open>search_orientation\<close>: the text between the first two slashes; group 1;
  \<^item> \<open>search_layout\<close>: three numbers followed by the signs for room, hall and bath;
    groups 1 to 3;
  \<^item> \<open>search_floor\<close>: a word before the sign for floor level and a number in
    parentheses; groups 1 and 2.
\<close>

record 'f pylib =
  int_of_str :: "ustr \<Rightarrow> int option"
  float_of_str :: "ustr \<Rightarrow> 'f option"
  search_area :: "ustr \<Rightarrow> ustr option"
  search_orientation :: "ustr \<Rightarrow> ustr option"
  search_layout :: "ustr \<Rightarrow> (ustr \<times> ustr \<times> ustr) option"
  search_floor :: "ustr \<Rightarrow> (ustr \<times> ustr) option"

definition py_int :: "(ustr \<Rightarrow> int option) \<Rightarrow> ustr \<Rightarrow> int outcome" where
  "py_int parse s = (case parse s of None \<Rightarrow> Raise ValueError | Some n \<Rightarrow> Return n)"

definition py_float :: "(ustr \<Rightarrow> 'f option) \<Rightarrow> ustr \<Rightarrow> 'f outcome" where
  "py_float parse s = (case parse s of None \<Rightarrow> Raise ValueError | Some x \<Rightarrow> Return x)"

text \<open>The three rent types the title is searched for: whole, shared, other.\<close>

definition rent_whole :: ustr where "rent_whole = [25972, 31199]"
definition rent_shared :: ustr where "rent_shared = [21512, 31199]"
definition rent_other :: ustr where "rent_other = [20854, 20182]"

text \<open>Block 1 of the source: the title and the rent type read from it.\<close>

definition parse_title :: "node \<Rightarrow> 'f listing \<Rightarrow> 'f listing" where
  "parse_title item_div listing =
     (case find_one item_div (ascii ''p'') (Some (ascii ''content__list--item--title'')) of
        None \<Rightarrow> listing
      | Some title_elem \<Rightarrow>
          (let title_text = get_text title_elem;
               listing = AList.update (ascii ''title'') (VStr title_text) listing
           in if contains rent_whole title_text
                then AList.update (ascii ''rent_type'') (VStr rent_whole) listing
              else if contains rent_shared title_text
                then AList.update (ascii ''rent_type'') (VStr rent_shared) listing
              else AList.update (ascii ''rent_type'') (VStr rent_other) listing))"

text \<open>Block 3: the description line. The district, sub-district and community are the
  texts of its first three links; the area, the orientation, the layout and the floor
  come from the pattern matches. \<^verbatim>\<open>float\<close> and \<^verbatim>\<open>int\<close> are not guarded here, so an
  exception of theirs leaves the block.\<close>

definition des_area :: "'f pylib \<Rightarrow> ustr \<Rightarrow> 'f listing \<Rightarrow> 'f listing outcome" where
  "des_area L des_text listing =
     (case search_area L des_text of
        None \<Rightarrow> Return listing
      | Some g1 \<Rightarrow>
          (case py_float (float_of_str L) g1 of
             Raise e \<Rightarrow> Raise e
           | Return x \<Rightarrow> Return (AList.update (ascii ''area'') (VFloat x) listing)))"

definition des_layout :: "'f pylib \<Rightarrow> ustr \<Rightarrow> 'f listing \<Rightarrow> 'f listing outcome" where
  "des_layout L des_text listing =
     (case search_layout L des_text of
        None \<Rightarrow> Return listing
      | Some (g1, g2, g3) \<Rightarrow>
          (case py_int (int_of_str L) g1 of
             Raise e \<Rightarrow> Raise e
           | Return bedrooms \<Rightarrow>
               (case py_int (int_of_str L) g2 of
                  Raise e \<Rightarrow> Raise e
                | Return living_rooms \<Rightarrow>
                    (case py_int (int_of_str L) g3 of
                       Raise e \<Rightarrow> Raise e
                     | Return bathrooms \<Rightarrow>
                         Return (AList.update (ascii ''bathrooms'') (VInt bathrooms)
                                  (AList.update (ascii ''living_rooms'') (VInt living_rooms)
                                    (AList.update (ascii ''bedrooms'') (VInt bedrooms)
                                      listing)))))))"

definition des_floor :: "'f pylib \<Rightarrow> node \<Rightarrow> 'f listing \<Rightarrow> 'f listing outcome" where
  "des_floor L des_elem listing =
     (case find_one des_elem (ascii ''span'') (Some (ascii ''hide'')) of
        None \<Rightarrow> Return listing
      | Some hide_elem \<Rightarrow>
          (case search_floor L (get_text hide_elem) of
             None \<Rightarrow> Return listing
           | Some (g1, g2) \<Rightarrow>
               (case py_int (int_of_str L) g2 of
                  Raise e \<Rightarrow> Raise e
                | Return total_floors \<Rightarrow>
                    Return (AList.update (ascii ''total_floors'') (VInt total_floors)
                             (AList.update (ascii ''floor_level'') (VStr g1) listing)))))"

definition parse_des :: "'f pylib \<Rightarrow> node \<Rightarrow> 'f listing \<Rightarrow> 'f listing outcome" where
  "parse_des L item_div listing =
     (case find_one item_div (ascii ''p'') (Some (ascii ''content__list--item--des'')) of
        None \<Rightarrow> Return listing
      | Some des_elem \<Rightarrow>
          (let des_text = get_text des_elem;
               area_links = find_all des_elem (ascii ''a'') None;
               listing =
                 (if length area_links \<ge> 3 then
                    AList.update (ascii ''community'') (VStr (get_text (area_links ! 2)))
                      (AList.update (ascii ''sub_district'') (VStr (get_text (area_links ! 1)))
                        (AList.update (ascii ''district'') (VStr (get_text (area_links ! 0)))
                          listing))
                  else listing)
           in case des_area L des_text listing of
                Raise e \<Rightarrow> Raise e
              | Return listing \<Rightarrow>
                  (let listing =
                         (case search_orientation L des_text of
                            None \<Rightarrow> listing
                          | Some g1 \<Rightarrow>
                              AList.update (ascii ''orientation'') (VStr (strip g1)) listing)
                   in case des_layout L des_text listing of
                        Raise e \<Rightarrow> Raise e
                      | Return listing \<Rightarrow> des_floor L des_elem listing)))"

text \<open>Block 4: the tags, the non-empty texts of the \<^verbatim>\<open>i\<close> elements joined by a bar.\<close>

definition parse_tags :: "node \<Rightarrow> 'f listing \<Rightarrow> 'f listing" where
  "parse_tags item_div listing =
     (case find_one item_div (ascii ''p'') (Some (ascii ''content__list--item--bottom'')) of
        None \<Rightarrow> listing
      | Some bottom_elem \<Rightarrow>
          (let tags = filter (\<lambda>tag_text. tag_text \<noteq> [])
                        (map get_text (find_all bottom_elem (ascii ''i'') None))
           in AList.update (ascii ''tags'') (VStr (join [124] tags)) listing))"

text \<open>Block 5: the platform, from the \<^verbatim>\<open>brand\<close> span when there is one.\<close>

definition parse_platform :: "node \<Rightarrow> 'f listing \<Rightarrow> 'f listing" where
  "parse_platform item_div listing =
     (case find_one item_div (ascii ''p'') (Some (ascii ''content__list--item--brand'')) of
        None \<Rightarrow> listing
      | Some brand_elem \<Rightarrow>
          (case find_one brand_elem (ascii ''span'') (Some (ascii ''brand'')) of
             Some brand_span \<Rightarrow>
               AList.update (ascii ''platform'') (VStr (get_text brand_span)) listing
           | None \<Rightarrow>
               AList.update (ascii ''platform'') (VStr (get_text brand_elem)) listing))"

text \<open>Block 6: the price, with its own \<^verbatim>\<open>try\<close>: a \<^verbatim>\<open>ValueError\<close> of \<^verbatim>\<open>int\<close> gives
  the price 0.\<close>

definition parse_price :: "'f pylib \<Rightarrow> node \<Rightarrow> 'f listing \<Rightarrow> 'f listing outcome" where
  "parse_price L item_div listing =
     (case find_one item_div (ascii ''span'') (Some (ascii ''content__list--item-price'')) of
        None \<Rightarrow> Return listing
      | Some price_elem \<Rightarrow>
          (case find_one price_elem (ascii ''em'') None of
             None \<Rightarrow> Return listing
           | Some em_elem \<Rightarrow>
               (case py_int (int_of_str L) (get_text em_elem) of
                  Return n \<Rightarrow> Return (AList.update (ascii ''price'') (VInt n) listing)
                | Raise e \<Rightarrow>
                    if e = ValueError
                    then Return (AList.update (ascii ''price'') (VInt 0) listing)
                    else Raise e)))"

text \<open>The body of the outer \<^verbatim>\<open>try\<close>, and \<^verbatim>\<open>parse_listing\<close> itself: on an
  \<^verbatim>\<open>Exception\<close> it prints a message and returns \<^verbatim>\<open>None\<close>.\<close>

definition parse_listing_body :: "'f pylib \<Rightarrow> node \<Rightarrow> 'f listing outcome" where
  "parse_listing_body L item_div =
     (case parse_des L item_div (parse_title item_div []) of
        Raise e \<Rightarrow> Raise e
      | Return listing \<Rightarrow>
          parse_price L item_div (parse_platform item_div (parse_tags item_div listing)))"

definition parse_listing :: "'f pylib \<Rightarrow> node \<Rightarrow> 'f listing option outcome" where
  "parse_listing L item_div =
     (case parse_listing_body L item_div of
        Return listing \<Rightarrow> Return (Some listing)
      | Raise e \<Rightarrow> if is_Exception e then Return None else Raise e)"

section \<open>Tables: the pandas data frame\<close>

text \<open>
  A data frame: the column names, and the rows with one cell per column, in column
  order. A cell holds a value or is missing (\<open>None\<close> stands for NaN). The dtype of a
  column is not represented, a cell holds its value; so an integer column that pandas
  turns into floating point when a missing cell joins it keeps its values here.
\<close>

record 'f frame =
  columns :: "ustr list"
  rows :: "'f pyval option list list"

text \<open>The cell of a row in the column named \<open>c\<close> (missing when there is no such
  column).\<close>

definition cell :: "ustr list \<Rightarrow> 'f pyval option list \<Rightarrow> ustr \<Rightarrow> 'f pyval option" where
  "cell cols r c = (case map_of (zip cols r) c of None \<Rightarrow> None | Some v \<Rightarrow> v)"

text \<open>The elements of a list in the order of their first occurrence, each once.\<close>

fun unseen :: "'a list \<Rightarrow> 'a list \<Rightarrow> 'a list" where
  "unseen seen [] = []"
| "unseen seen (x # xs) = (if x \<in> set seen then unseen seen xs else x # unseen (x # seen) xs)"

definition first_occurrences :: "'a list \<Rightarrow> 'a list" where
  "first_occurrences xs = unseen [] xs"

text \<open>\<^verbatim>\<open>pd.DataFrame(listings)\<close> for a list of dicts: the columns are the keys in the
  order of their first appearance, one row per dict, a key a dict lacks is missing.\<close>

definition DataFrame :: "'f listing list \<Rightarrow> 'f frame" where
  "DataFrame listings =
     (let cols = first_occurrences (concat (map (map fst) listings))
      in \<lparr>columns = cols, rows = map (\<lambda>d. map (map_of d) cols) listings\<rparr>)"

text \<open>\<^verbatim>\<open>pd.concat([a, b], ignore_index=True)\<close>: the columns of \<open>a\<close>, then those of \<open>b\<close>
  that \<open>a\<close> lacks; the rows of \<open>a\<close>, then the rows of \<open>b\<close>, each laid out on these
  columns.\<close>

definition reindex :: "'f frame \<Rightarrow> ustr list \<Rightarrow> 'f pyval option list list" where
  "reindex df cols = map (\<lambda>r. map (cell (columns df) r) cols) (rows df)"

definition pd_concat :: "'f frame \<Rightarrow> 'f frame \<Rightarrow> 'f frame" where
  "pd_concat a b =
     (let cols = columns a @ filter (\<lambda>c. c \<notin> set (columns a)) (columns b)
      in \<lparr>columns = cols, rows = reindex a cols @ reindex b cols\<rparr>)"

text \<open>
  The CSV writer and reader of pandas are parameters: \<open>to_csv\<close> gives the text written
  for a frame (\<^verbatim>\<open>df.to_csv(path, index=False, encoding='utf-8-sig')\<close>), \<open>read_csv\<close> the
  frame read from a text (\<^verbatim>\<open>pd.read_csv(path, encoding='utf-8-sig')\<close>), \<open>None\<close> when
  reading raises.
\<close>

record 'f csv_io =
  to_csv :: "'f frame \<Rightarrow> ustr"
  read_csv :: "ustr \<Rightarrow> 'f frame option"

definition pd_read_csv :: "'f csv_io \<Rightarrow> filesystem \<Rightarrow> ustr \<Rightarrow> 'f frame outcome" where
  "pd_read_csv io fs path =
     (case fs path of
        None \<Rightarrow> Raise FileNotFoundError
      | Some Dir \<Rightarrow> Raise IsADirectoryError
      | Some (File text) \<Rightarrow>
          (case read_csv io text of None \<Rightarrow> Raise PandasError | Some df \<Rightarrow> Return df))"

text \<open>Writing replaces the file. pandas refuses a destination whose directory does not
  exist, and a directory cannot be opened for writing.\<close>

definition df_to_csv ::
  "'f csv_io \<Rightarrow> filesystem \<Rightarrow> ustr \<Rightarrow> 'f frame \<Rightarrow> unit outcome \<times> filesystem" where
  "df_to_csv io fs path df =
     (if parent_dir path \<noteq> [] \<and> fs (parent_dir path) \<noteq> Some Dir then (Raise OSError, fs)
      else if fs path = Some Dir then (Raise IsADirectoryError, fs)
      else (Return (), fs(path \<mapsto> File (to_csv io df))))"

section \<open>The persistence writer: \<^verbatim>\<open>LianjiaSpider.save_to_csv\<close>\<close>

text \<open>The append branch with its \<^verbatim>\<open>try\<close> (the flag \<^verbatim>\<open>append\<close> is written
  \<open>appending\<close>): the frame to write is the existing table
  followed by the new one; when reading or concatenating raises an \<^verbatim>\<open>Exception\<close>, it
  is the new one alone.\<close>

definition merge_existing ::
  "'f csv_io \<Rightarrow> filesystem \<Rightarrow> ustr \<Rightarrow> 'f frame \<Rightarrow> bool \<Rightarrow> 'f frame outcome" where
  "merge_existing io fs filepath df appending =
     (if appending \<and> path_exists fs filepath then
        (case pd_read_csv io fs filepath of
           Return existing_df \<Rightarrow> Return (pd_concat existing_df df)
         | Raise e \<Rightarrow> if is_Exception e then Return df else Raise e)
      else Return df)"

definition save_to_csv ::
  "'f csv_io \<Rightarrow> filesystem \<Rightarrow> 'f listing list \<Rightarrow> ustr option \<Rightarrow> bool
     \<Rightarrow> ustr option outcome \<times> filesystem" where
  "save_to_csv io fs listings filename appending =
     (if listings = [] then (Return None, fs)
      else
        (let filename = (case filename of
                           None \<Rightarrow> OUTPUT_FILENAME_PREFIX @ ascii ''.csv''
                         | Some f \<Rightarrow> f);
             df = DataFrame listings
         in case makedirs fs OUTPUT_DIR of
              (Raise e, fs1) \<Rightarrow> (Raise e, fs1)
            | (Return u, fs1) \<Rightarrow>
                (let filepath = path_join OUTPUT_DIR filename
                 in case merge_existing io fs1 filepath df appending of
                      Raise e \<Rightarrow> (Raise e, fs1)
                    | Return df \<Rightarrow>
                        (case df_to_csv io fs1 filepath df of
                           (Raise e, fs2) \<Rightarrow> (Raise e, fs2)
                         | (Return u, fs2) \<Rightarrow> (Return (Some filepath), fs2)))))"

section \<open>Cleaning: \<^verbatim>\<open>clean_data\<close> of utils/data_processor.py\<close>







section \<open>The command line: scripts/run_scraper.py\<close>

text \<open>
  What \<^verbatim>\<open>main\<close> and \<^verbatim>\<open>get_page_range_interactive\<close> print, one constructor for each
  \<^verbatim>\<open>print\<close> and each prompt of \<^verbatim>\<open>input\<close>; the messages printed inside the spider are
  not recorded. \<open>MsgOverview n\<close> stands for the overview block, which starts with the
  number of records; its statistics are not modelled.
\<close>

datatype message =
    MsgTitle
  | MsgAskRange
  | PromptStart
  | PromptEnd
  | ErrEndEmpty
  | ErrStartBelowOne
  | ErrEndBelowStart
  | ErrNotInteger
  | MsgCancelled
  | ErrArgNotInteger
  | ErrBadRange
  | MsgStart int int
  | MsgExpected int
  | MsgRule
  | MsgOverview nat
  | MsgSaved "ustr option"
  | MsgDone
  | MsgNoData

text \<open>What the user does at a prompt: a line of input, or Ctrl-C. When nothing is left,
  \<^verbatim>\<open>input\<close> raises \<^verbatim>\<open>EOFError\<close>, which no handler of the script catches.\<close>

datatype stdin_event = Line ustr | CtrlC

text \<open>The \<^verbatim>\<open>while True\<close> loop of \<^verbatim>\<open>get_page_range_interactive\<close>; every turn reads at
  least one event. The result \<open>None\<close> is the pair \<^verbatim>\<open>(None, None)\<close> of the source.\<close>

fun prompt_loop ::
  "(ustr \<Rightarrow> int option) \<Rightarrow> stdin_event list \<Rightarrow> message list
     \<Rightarrow> (int \<times> int) option outcome \<times> message list" where
  "prompt_loop int_of [] out = (Raise EOFError, out @ [PromptStart])"
| "prompt_loop int_of (CtrlC # rest) out = (Return None, out @ [PromptStart, MsgCancelled])"
| "prompt_loop int_of (Line s # rest) out =
     (case (if strip s = [] then Return 1 else py_int int_of (strip s)) of
        Raise e \<Rightarrow> prompt_loop int_of rest (out @ [PromptStart, ErrNotInteger])
      | Return start_page \<Rightarrow>
          (case rest of
             [] \<Rightarrow> (Raise EOFError, out @ [PromptStart, PromptEnd])
           | CtrlC # rest2 \<Rightarrow> (Return None, out @ [PromptStart, PromptEnd, MsgCancelled])
           | Line t # rest2 \<Rightarrow>
               if strip t = [] then
                 prompt_loop int_of rest2 (out @ [PromptStart, PromptEnd, ErrEndEmpty])
               else
                 (case py_int int_of (strip t) of
                    Raise e \<Rightarrow>
                      prompt_loop int_of rest2 (out @ [PromptStart, PromptEnd, ErrNotInteger])
                  | Return end_page \<Rightarrow>
                      if start_page < 1 then
                        prompt_loop int_of rest2
                          (out @ [PromptStart, PromptEnd, ErrStartBelowOne])
                      else if end_page < start_page then
                        prompt_loop int_of rest2
                          (out @ [PromptStart, PromptEnd, ErrEndBelowStart])
                      else (Return (Some (start_page, end_page)),
                            out @ [PromptStart, PromptEnd]))))"

definition get_page_range_interactive ::
  "(ustr \<Rightarrow> int option) \<Rightarrow> stdin_event list
     \<Rightarrow> (int \<times> int) option outcome \<times> message list" where
  "get_page_range_interactive int_of stdin = prompt_loop int_of stdin [MsgTitle, MsgAskRange]"

text \<open>
  A run of the script: what \<^verbatim>\<open>main\<close> printed, the pages the fetcher was called with,
  the file system at the end, and how the run ended (\<open>Return ()\<close>, also for the early
  \<^verbatim>\<open>return\<close>s, or the exception that was not caught).
\<close>

record run =
  printed :: "message list"
  requested :: "int list"
  fs_after :: filesystem
  ended :: "unit outcome"

text \<open>The part of \<^verbatim>\<open>main\<close> after the page range is known: the announcement, the spider
  (building it sends no request), the crawl, and the saving in append mode.\<close>

definition crawl_and_save ::
  "'f csv_io \<Rightarrow> (int \<Rightarrow> 'f listing list) \<Rightarrow> filesystem \<Rightarrow> message list \<Rightarrow> int \<Rightarrow> int \<Rightarrow> run" where
  "crawl_and_save io scrape_page fs out start_page end_page =
     (let out = out @ [MsgStart start_page end_page,
                       MsgExpected (end_page - start_page + 1), MsgRule];
          pages = fetched (crawl scrape_page start_page end_page)
      in case scrape_page_range scrape_page fs start_page end_page of
           (Raise e, fs1) \<Rightarrow>
             \<lparr>printed = out, requested = pages, fs_after = fs1, ended = Raise e\<rparr>
         | (Return listings, fs1) \<Rightarrow>
             if listings \<noteq> [] then
               (case save_to_csv io fs1 listings None True of
                  (Raise e, fs2) \<Rightarrow>
                    \<lparr>printed = out, requested = pages, fs_after = fs2, ended = Raise e\<rparr>
                | (Return filepath, fs2) \<Rightarrow>
                    \<lparr>printed = out @ [MsgOverview (length listings), MsgSaved filepath, MsgDone],
                     requested = pages, fs_after = fs2, ended = Return ()\<rparr>)
             else \<lparr>printed = out @ [MsgNoData], requested = pages, fs_after = fs1,
                   ended = Return ()\<rparr>)"

text \<open>\<^verbatim>\<open>main\<close>, with \<^verbatim>\<open>sys.argv\<close> (the script's name first) and the input of the user.
  With more than two arguments the defaults 1 and 10 stand.\<close>

definition main ::
  "(ustr \<Rightarrow> int option) \<Rightarrow> 'f csv_io \<Rightarrow> (int \<Rightarrow> 'f listing list) \<Rightarrow> filesystem
     \<Rightarrow> ustr list \<Rightarrow> stdin_event list \<Rightarrow> run" where
  "main int_of io scrape_page fs argv stdin =
     (if length argv = 1 then
        (case get_page_range_interactive int_of stdin of
           (Raise e, out) \<Rightarrow>
             \<lparr>printed = out, requested = [], fs_after = fs, ended = Raise e\<rparr>
         | (Return None, out) \<Rightarrow>
             \<lparr>printed = out, requested = [], fs_after = fs, ended = Return ()\<rparr>
         | (Return (Some (start_page, end_page)), out) \<Rightarrow>
             crawl_and_save io scrape_page fs out start_page end_page)
      else if length argv = 2 then
        (case py_int int_of (argv ! 1) of
           Raise e \<Rightarrow>
             \<lparr>printed = [ErrArgNotInteger], requested = [], fs_after = fs, ended = Return ()\<rparr>
         | Return end_page \<Rightarrow> crawl_and_save io scrape_page fs [] 1 end_page)
      else if length argv = 3 then
        (case py_int int_of (argv ! 1) of
           Raise e \<Rightarrow>
             \<lparr>printed = [ErrArgNotInteger], requested = [], fs_after = fs, ended = Return ()\<rparr>
         | Return start_page \<Rightarrow>
             (case py_int int_of (argv ! 2) of
                Raise e \<Rightarrow>
                  \<lparr>printed = [ErrArgNotInteger], requested = [], fs_after = fs,
                   ended = Return ()\<rparr>
              | Return end_page \<Rightarrow>
                  if start_page > end_page \<or> start_page < 1 then
                    \<lparr>printed = [ErrBadRange], requested = [], fs_after = fs, ended = Return ()\<rparr>
                  else crawl_and_save io scrape_page fs [] start_page end_page))
      else crawl_and_save io scrape_page fs [] 1 10)"

section \<open>Inputs for the examples\<close>

text \<open>
  \<^verbatim>\<open>int(s)\<close> on ASCII text: white space around an optional sign and decimal digits,
  single underscores allowed between digits. (Python also reads the decimal digits of
  other scripts; the examples do not use them.)
\<close>

fun ascii_digits :: "ustr \<Rightarrow> nat \<Rightarrow> nat option" where
  "ascii_digits [] acc = Some acc"
| "ascii_digits (c # cs) acc =
     (if 48 \<le> c \<and> c \<le> 57 then ascii_digits cs (10 * acc + (c - 48))
      else if c = 95 then
        (case cs of
           [] \<Rightarrow> None
         | d # ds \<Rightarrow>
             if 48 \<le> d \<and> d \<le> 57 then ascii_digits ds (10 * acc + (d - 48)) else None)
      else None)"

definition ascii_int :: "ustr \<Rightarrow> int option" where
  "ascii_int s =
     (let t = strip s;
          neg = (t \<noteq> [] \<and> hd t = 45);
          body = (if t \<noteq> [] \<and> (hd t = 45 \<or> hd t = 43) then tl t else t)
      in if body = [] \<or> \<not> (48 \<le> hd body \<and> hd body \<le> 57) then None
         else map_option (\<lambda>n. if neg then - int n else int n)
                (ascii_digits (tl body) (hd body - 48)))"

text \<open>A library for the examples: \<open>ascii_int\<close>, and patterns that match nothing. It is
  applied only to fragments without a description line, where neither \<^verbatim>\<open>float\<close> nor a
  pattern is called.\<close>

definition ascii_lib :: "real pylib" where
  "ascii_lib = \<lparr>int_of_str = ascii_int, float_of_str = (\<lambda>s. None),
                 search_area = (\<lambda>s. None), search_orientation = (\<lambda>s. None),
                 search_layout = (\<lambda>s. None), search_floor = (\<lambda>s. None)\<rparr>"

text \<open>A listing fragment with a title element and a price element only; the title
  contains the word for a whole-flat rental.\<close>

definition item_title_price :: node where
  "item_title_price =
     Tag (ascii ''div'') [ascii ''content__list--item'']
       [Tag (ascii ''p'') [ascii ''content__list--item--title'', ascii ''twoline'']
          [Tag (ascii ''a'') [] [NavigableString ([32, 10] @ rent_whole @ ascii '' A 2-1 '')]],
        Tag (ascii ''span'') [ascii ''content__list--item-price'']
          [Tag (ascii ''em'') [] [NavigableString (ascii ''5000'')],
           NavigableString (ascii '' /m'')]]"

text \<open>The same fragment with a price text that is no number.\<close>

definition item_bad_price :: node where
  "item_bad_price =
     Tag (ascii ''div'') [ascii ''content__list--item'']
       [Tag (ascii ''p'') [ascii ''content__list--item--title'']
          [NavigableString (ascii ''Room B'')],
        Tag (ascii ''span'') [ascii ''content__list--item-price'']
          [Tag (ascii ''em'') [] [NavigableString (ascii ''4500-5000'')]]]"

text \<open>A writer and a reader for the examples: the writer puts commas between the cells
  and ends every line, the header first; the reader knows one file, a price column with
  the one row 4000.\<close>

definition show_cell :: "real pyval option \<Rightarrow> ustr" where
  "show_cell v = (case v of Some (VInt i) \<Rightarrow> str_int i | Some (VStr s) \<Rightarrow> s | _ \<Rightarrow> [])"

definition example_text :: ustr where
  "example_text = ascii ''price'' @ [10] @ ascii ''4000'' @ [10]"

definition example_io :: "real csv_io" where
  "example_io =
     \<lparr>to_csv = (\<lambda>df. concat (map (\<lambda>line. join [44] line @ [10])
                                (columns df # map (map show_cell) (rows df)))),
      read_csv = (\<lambda>text. if text = example_text
                          then Some \<lparr>columns = [ascii ''price''], rows = [[Some (VInt 4000)]]\<rparr>
                          else None)\<rparr>"

definition example_fs :: filesystem where
  "example_fs = [OUTPUT_DIR \<mapsto> Dir,
                 ascii ''data/beijing_rental_data.csv'' \<mapsto> File example_text]"


section \<open>Properties of the crawl\<close>

lemma crawl_loop_inv:
  assumes "all_listings st = concat (map scrape_page (fetched st))"
    and "skipped_pages st = filter (\<lambda>p. scrape_page p = []) (fetched st)"
  shows "all_listings (crawl_loop scrape_page ps st)
           = concat (map scrape_page (fetched (crawl_loop scrape_page ps st)))
       \<and> skipped_pages (crawl_loop scrape_page ps st)
           = filter (\<lambda>p. scrape_page p = []) (fetched (crawl_loop scrape_page ps st))"
  using assms
proof (induction ps arbitrary: st)
  case Nil
  then show ?case by simp
next
  case (Cons p ps)
  show ?case
  proof (cases "scrape_page p = []")
    case True
    then show ?thesis
      using Cons.prems Cons.IH [of "st\<lparr>fetched := fetched st @ [p],
              consecutive_empty_pages := consecutive_empty_pages st + 1,
              skipped_pages := skipped_pages st @ [p]\<rparr>"]
      by (simp add: Let_def)
  next
    case False
    then show ?thesis
      using Cons.prems Cons.IH [of "st\<lparr>fetched := fetched st @ [p],
              consecutive_empty_pages := 0,
              all_listings := all_listings st @ scrape_page p\<rparr>"]
      by (simp add: Let_def)
  qed
qed

lemma crawl_loop_all_nonempty:
  assumes "\<forall>p\<in>set ps. scrape_page p \<noteq> []"
  shows "crawl_loop scrape_page ps st =
           st\<lparr>fetched := fetched st @ ps,
              consecutive_empty_pages := (if ps = [] then consecutive_empty_pages st else 0),
              all_listings := all_listings st @ concat (map scrape_page ps)\<rparr>"
  using assms
proof (induction ps arbitrary: st)
  case Nil
  then show ?case by simp
next
  case (Cons p ps)
  then show ?case by (simp add: Let_def)
qed

text \<open>The loop fetches a prefix of the pages it is given, and it either leaves by
  \<^verbatim>\<open>break\<close> or has fetched them all.\<close>

lemma crawl_loop_terminal:
  assumes "\<not> stopped_by_gap st"
  shows "\<exists>k \<le> length ps. fetched (crawl_loop scrape_page ps st) = fetched st @ take k ps
            \<and> (stopped_by_gap (crawl_loop scrape_page ps st) \<or> k = length ps)"
  using assms
proof (induction ps arbitrary: st)
  case Nil
  then show ?case by simp
next
  case (Cons p ps)
  show ?case
  proof (cases "scrape_page p = []")
    case True
    note empty = this
    show ?thesis
    proof (cases "consecutive_empty_pages st + 1 \<ge> max_consecutive_empty")
      case True
      with empty show ?thesis
        by (intro exI [of _ 1]) (simp add: Let_def)
    next
      case False
      let ?st = "st\<lparr>fetched := fetched st @ [p],
              consecutive_empty_pages := consecutive_empty_pages st + 1,
              skipped_pages := skipped_pages st @ [p]\<rparr>"
      from Cons.prems have "\<not> stopped_by_gap ?st" by simp
      from Cons.IH [OF this] obtain k where k: "k \<le> length ps"
        "fetched (crawl_loop scrape_page ps ?st) = fetched ?st @ take k ps"
        "stopped_by_gap (crawl_loop scrape_page ps ?st) \<or> k = length ps" by blast
      with empty False show ?thesis
        by (intro exI [of _ "Suc k"]) (simp add: Let_def)
    qed
  next
    case False
    let ?st = "st\<lparr>fetched := fetched st @ [p],
              consecutive_empty_pages := 0,
              all_listings := all_listings st @ scrape_page p\<rparr>"
    from Cons.prems have "\<not> stopped_by_gap ?st" by simp
    from Cons.IH [OF this] obtain k where k: "k \<le> length ps"
        "fetched (crawl_loop scrape_page ps ?st) = fetched ?st @ take k ps"
        "stopped_by_gap (crawl_loop scrape_page ps ?st) \<or> k = length ps" by blast
    with False show ?thesis
      by (intro exI [of _ "Suc k"]) (simp add: Let_def)
  qed
qed

text \<open>Where the log can be written, the skipped pages go to the end of it.\<close>

lemma save_skipped_pages_ok:
  assumes "fs OUTPUT_DIR \<in> {None, Some Dir}" and "fs skipped_pages_path \<noteq> Some Dir"
    and "pages \<noteq> []"
  shows "save_skipped_pages fs pages =
     (Return (),
      fs(OUTPUT_DIR \<mapsto> Dir,
         skipped_pages_path \<mapsto>
           File ((case fs skipped_pages_path of Some (File old) \<Rightarrow> old | _ \<Rightarrow> [])
                  @ skipped_lines pages)))"
proof -
  have ne: "skipped_pages_path \<noteq> OUTPUT_DIR"
    by (simp add: skipped_pages_path_def path_join_def OUTPUT_DIR_def
        OUTPUT_FILENAME_PREFIX_def ascii_def)
  have same: "fs(OUTPUT_DIR \<mapsto> Dir) = fs" if "fs OUTPUT_DIR = Some Dir"
    using that by (simp add: fun_upd_idem)
  show ?thesis
    using assms ne same
    by (auto simp: save_skipped_pages_def makedirs_def append_text_def
        split: option.splits entry.splits)
qed

text \<open>
  Claim C1. When the page fetcher yields at least one record for each of the pages 1 to
  5 and none for the pages 6, 7 and 8, a crawl of the range 1 to 10 calls the fetcher for
  the pages 1 to 8 and no other, leaves the loop by its \<^verbatim>\<open>break\<close> at page 8 (the
  third empty page in a row), and the skipped pages it records are 6, 7 and 8: that list
  is what \<^verbatim>\<open>save_skipped_pages\<close> is called with, and the records of the pages 1 to 5
  are returned. Nothing is assumed of the pages 9 and 10, so the statement covers the
  fetcher of the claim, which has records there.
\<close>

theorem crawl_stops_after_third_empty_page:
  assumes "\<forall>p\<in>{1..5}. scrape_page p \<noteq> []"
    and "scrape_page 6 = []" and "scrape_page 7 = []" and "scrape_page 8 = []"
  shows "fetched (crawl scrape_page 1 10) = [1, 2, 3, 4, 5, 6, 7, 8]
       \<and> 9 \<notin> set (fetched (crawl scrape_page 1 10))
       \<and> 10 \<notin> set (fetched (crawl scrape_page 1 10))
       \<and> stopped_by_gap (crawl scrape_page 1 10)
       \<and> consecutive_empty_pages (crawl scrape_page 1 10) = 3
       \<and> skipped_pages (crawl scrape_page 1 10) = [6, 7, 8]
       \<and> scrape_page_range scrape_page fs 1 10 =
           (case save_skipped_pages fs [6, 7, 8] of
              (Raise e, fs1) \<Rightarrow> (Raise e, fs1)
            | (Return u, fs1) \<Rightarrow> (Return (concat (map scrape_page [1, 2, 3, 4, 5])), fs1))"
proof -
  have ne: "scrape_page 1 \<noteq> []" "scrape_page 2 \<noteq> []" "scrape_page 3 \<noteq> []"
    "scrape_page 4 \<noteq> []" "scrape_page 5 \<noteq> []"
    using assms(1) by simp_all
  have st: "crawl scrape_page 1 10 =
     \<lparr>all_listings = concat (map scrape_page [1, 2, 3, 4, 5]),
      skipped_pages = [6, 7, 8], consecutive_empty_pages = 3,
      fetched = [1, 2, 3, 4, 5, 6, 7, 8], stopped_by_gap = True\<rparr>"
    using ne assms(2-4)
    by (simp add: crawl_def crawl_init_def upto_rec1 Let_def max_consecutive_empty_def)
  show ?thesis
    unfolding scrape_page_range_def st
    by (simp add: Let_def split: prod.splits outcome.splits)
qed

theorem crawl_stops_after_third_empty_page_witness:
  "fetched (crawl (\<lambda>p. if p \<in> {6, 7, 8} then [] else [p]) 1 10) = [1, 2, 3, 4, 5, 6, 7, 8]
   \<and> stopped_by_gap (crawl (\<lambda>p. if p \<in> {6, 7, 8} then [] else [p]) 1 10)
   \<and> skipped_pages (crawl (\<lambda>p. if p \<in> {6, 7, 8} then [] else [p]) 1 10) = [6, 7, 8]
   \<and> all_listings (crawl (\<lambda>p. if p \<in> {6, 7, 8} then [] else [p]) 1 10) = [1, 2, 3, 4, 5]"
proof -
  let ?f = "\<lambda>p::int. if p \<in> {6, 7, 8} then [] else [p]"
  have h: "\<forall>p\<in>{1..5}. ?f p \<noteq> []" by simp
  have "all_listings (crawl ?f 1 10) = [1, 2, 3, 4, 5]"
    by (simp add: crawl_def crawl_init_def upto_rec1 Let_def max_consecutive_empty_def)
  with crawl_stops_after_third_empty_page [of ?f, OF h] show ?thesis by simp
qed

text \<open>
  Claim C6. When the page fetcher returns a non-empty list for every page of the range 1
  to 10, the crawl calls it for exactly the pages 1, 2, ..., 10 in this order, returns the
  ten page results concatenated in page order, and skips no page: the skipped list is
  empty, the loop is not left early, and the skipped-pages log is not touched.
\<close>

theorem crawl_of_ten_nonempty_pages:
  assumes "\<forall>p\<in>{1..10}. scrape_page p \<noteq> []"
  shows "fetched (crawl scrape_page 1 10) = [1, 2, 3, 4, 5, 6, 7, 8, 9, 10]
       \<and> all_listings (crawl scrape_page 1 10)
           = concat (map scrape_page [1, 2, 3, 4, 5, 6, 7, 8, 9, 10])
       \<and> skipped_pages (crawl scrape_page 1 10) = []
       \<and> \<not> stopped_by_gap (crawl scrape_page 1 10)
       \<and> scrape_page_range scrape_page fs 1 10
           = (Return (concat (map scrape_page [1, 2, 3, 4, 5, 6, 7, 8, 9, 10])), fs)"
proof -
  have range: "[1..10::int] = [1, 2, 3, 4, 5, 6, 7, 8, 9, 10]"
    by (simp add: upto_rec1)
  have "\<forall>p\<in>set [1..10]. scrape_page p \<noteq> []"
    using assms by simp
  from crawl_loop_all_nonempty [OF this, of crawl_init]
  have st: "crawl scrape_page 1 10 =
     crawl_init\<lparr>fetched := [1..10], consecutive_empty_pages := 0,
       all_listings := concat (map scrape_page [1..10])\<rparr>"
    by (simp add: crawl_def crawl_init_def)
  show ?thesis
    unfolding scrape_page_range_def st by (simp add: crawl_init_def range Let_def)
qed

theorem crawl_of_ten_nonempty_pages_witness:
  "fetched (crawl (\<lambda>p. [p, p]) 1 10) = [1, 2, 3, 4, 5, 6, 7, 8, 9, 10]
   \<and> all_listings (crawl (\<lambda>p. [p, p]) 1 10)
       = [1, 1, 2, 2, 3, 3, 4, 4, 5, 5, 6, 6, 7, 7, 8, 8, 9, 9, 10, 10]
   \<and> skipped_pages (crawl (\<lambda>p. [p, p]) 1 10) = []"
proof -
  have h: "\<forall>p\<in>{1..10}. (\<lambda>p::int. [p, p]) p \<noteq> []" by simp
  from crawl_of_ten_nonempty_pages [of "\<lambda>p. [p, p]", OF h] show ?thesis by simp
qed

text \<open>
  Claim C3. For every page fetcher and every range, whether the loop ends by the gap
  rule or at the end of the range, the crawl's output is the aggregate list and the
  skipped pages: with \<open>st\<close> the final state of the loop, the fetched pages are a prefix
  of the range (all of it unless the loop was left by \<^verbatim>\<open>break\<close>), the aggregate list
  is the concatenation of the results of the fetched pages, the skipped list holds the
  fetched pages whose result was empty, and \<^verbatim>\<open>scrape_page_range\<close> returns the
  aggregate list and appends the skipped pages, one per line, to the skipped-pages log
  (the return value itself is the aggregate list alone; with no skipped page the file
  system is left as it was). The last part needs the log to be writable: \<^verbatim>\<open>data\<close> is
  not a regular file and the log's path is not a directory.
\<close>

theorem scrape_page_range_output:
  "(let st = crawl scrape_page start_page end_page in
      (\<exists>k \<le> length [start_page..end_page].
          fetched st = take k [start_page..end_page]
          \<and> (stopped_by_gap st \<or> k = length [start_page..end_page]))
    \<and> all_listings st = concat (map scrape_page (fetched st))
    \<and> skipped_pages st = filter (\<lambda>p. scrape_page p = []) (fetched st)
    \<and> (fs OUTPUT_DIR \<in> {None, Some Dir} \<and> fs skipped_pages_path \<noteq> Some Dir \<longrightarrow>
         scrape_page_range scrape_page fs start_page end_page =
           (Return (all_listings st),
            if skipped_pages st = [] then fs
            else fs(OUTPUT_DIR \<mapsto> Dir,
                    skipped_pages_path \<mapsto>
                      File ((case fs skipped_pages_path of Some (File old) \<Rightarrow> old | _ \<Rightarrow> [])
                             @ skipped_lines (skipped_pages st))))))"
proof -
  define st where "st = crawl scrape_page start_page end_page"
  have prefix: "\<exists>k \<le> length [start_page..end_page].
          fetched st = take k [start_page..end_page]
          \<and> (stopped_by_gap st \<or> k = length [start_page..end_page])"
    using crawl_loop_terminal [of crawl_init "[start_page..end_page]" scrape_page]
    by (simp add: st_def crawl_def crawl_init_def)
  have inv: "all_listings st = concat (map scrape_page (fetched st))
       \<and> skipped_pages st = filter (\<lambda>p. scrape_page p = []) (fetched st)"
    unfolding st_def crawl_def
    by (rule crawl_loop_inv) (simp_all add: crawl_init_def)
  have out: "scrape_page_range scrape_page fs start_page end_page =
           (Return (all_listings st),
            if skipped_pages st = [] then fs
            else fs(OUTPUT_DIR \<mapsto> Dir,
                    skipped_pages_path \<mapsto>
                      File ((case fs skipped_pages_path of Some (File old) \<Rightarrow> old | _ \<Rightarrow> [])
                             @ skipped_lines (skipped_pages st))))"
    if ok: "fs OUTPUT_DIR \<in> {None, Some Dir}" "fs skipped_pages_path \<noteq> Some Dir"
  proof (cases "skipped_pages st = []")
    case True
    then show ?thesis
      by (simp add: scrape_page_range_def Let_def st_def [symmetric])
  next
    case False
    with save_skipped_pages_ok [OF ok False] show ?thesis
      by (simp add: scrape_page_range_def Let_def st_def [symmetric])
  qed
  from prefix inv out show ?thesis
    unfolding Let_def st_def [symmetric] by blast
qed

theorem scrape_page_range_output_witness:
  "scrape_page_range (\<lambda>p. if p = 2 then [] else [p]) Map.empty 1 3
     = (Return [1, 3], [OUTPUT_DIR \<mapsto> Dir, skipped_pages_path \<mapsto> File [50, 10]])"
proof -
  let ?f = "\<lambda>p::int. if p = 2 then [] else [p]"
  have st: "crawl ?f 1 3 =
     \<lparr>all_listings = [1, 3], skipped_pages = [2], consecutive_empty_pages = 0,
      fetched = [1, 2, 3], stopped_by_gap = False\<rparr>"
    by (simp add: crawl_def crawl_init_def upto_rec1 Let_def max_consecutive_empty_def)
  from scrape_page_range_output [of ?f 1 3 Map.empty]
  show ?thesis
    unfolding st Let_def
    by (simp add: skipped_lines_def str_int_def digits_of.simps)
qed

section \<open>Properties of the field extractor\<close>

text \<open>The only exception the conversions raise is \<^verbatim>\<open>ValueError\<close>, so that is the only
  one that can leave a block.\<close>

lemma py_int_raises: "py_int f s = Raise e \<Longrightarrow> e = ValueError"
  by (simp add: py_int_def split: option.splits)

lemma py_float_raises: "py_float f s = Raise e \<Longrightarrow> e = ValueError"
  by (simp add: py_float_def split: option.splits)

lemma des_area_raises: "des_area L t l = Raise e \<Longrightarrow> e = ValueError"
  by (auto simp: des_area_def split: option.splits outcome.splits dest: py_float_raises)

lemma des_layout_raises: "des_layout L t l = Raise e \<Longrightarrow> e = ValueError"
  by (auto simp: des_layout_def split: option.splits outcome.splits prod.splits
      dest: py_int_raises)

lemma des_floor_raises: "des_floor L d l = Raise e \<Longrightarrow> e = ValueError"
  by (auto simp: des_floor_def split: option.splits outcome.splits prod.splits
      dest: py_int_raises)

lemma parse_des_raises: "parse_des L item l = Raise e \<Longrightarrow> e = ValueError"
  by (auto simp: parse_des_def Let_def split: option.splits outcome.splits
      dest: des_area_raises des_layout_raises des_floor_raises)

lemma parse_price_returns: "parse_price L item l \<noteq> Raise e"
  by (auto simp: parse_price_def split: option.splits outcome.splits dest: py_int_raises)

lemma parse_listing_body_raises: "parse_listing_body L item = Raise e \<Longrightarrow> e = ValueError"
  by (auto simp: parse_listing_body_def parse_price_returns split: outcome.splits
      dest: parse_des_raises)

lemma parse_listing_returns: "\<exists>r. parse_listing L item = Return r"
  by (auto simp: parse_listing_def split: outcome.splits dest: parse_listing_body_raises)

lemma keys_distinct:
  "ascii ''title'' \<noteq> ascii ''price''" "ascii ''rent_type'' \<noteq> ascii ''price''"
  "ascii ''title'' \<noteq> ascii ''rent_type''"
  by (simp_all add: ascii_def)

lemmas sample_defs =
  find_one_def find_all_def get_text_def strip_def isspace_def ascii_def
  rent_whole_def rent_shared_def rent_other_def py_int_def ascii_lib_def ascii_int_def
  item_title_price_def item_bad_price_def

text \<open>
  Claim C5, as the code has it. For every library and every fragment,
  \<^verbatim>\<open>parse_listing\<close> returns (a record or \<^verbatim>\<open>None\<close>) and raises nothing. For a fragment
  in which a title element and a price element with its \<^verbatim>\<open>em\<close> are found and no
  description, tag or brand element is, it returns a record with exactly three fields:
  the title, the rent type read from the title (whole, shared, or else other), and the
  price (the integer of the price text, or 0 when the text is no integer). The claim
  says that only the title and the price are set; the rent type is set as well.
\<close>

theorem parse_listing_title_and_price:
  "(\<exists>r. parse_listing L item = Return r)
   \<and> (find_one item (ascii ''p'') (Some (ascii ''content__list--item--title'')) = Some title_elem
      \<and> find_one item (ascii ''p'') (Some (ascii ''content__list--item--des'')) = None
      \<and> find_one item (ascii ''p'') (Some (ascii ''content__list--item--bottom'')) = None
      \<and> find_one item (ascii ''p'') (Some (ascii ''content__list--item--brand'')) = None
      \<and> find_one item (ascii ''span'') (Some (ascii ''content__list--item-price''))
           = Some price_elem
      \<and> find_one price_elem (ascii ''em'') None = Some em_elem
      \<longrightarrow> parse_listing L item = Return (Some
            [(ascii ''title'', VStr (get_text title_elem)),
             (ascii ''rent_type'',
                VStr (if contains rent_whole (get_text title_elem) then rent_whole
                      else if contains rent_shared (get_text title_elem) then rent_shared
                      else rent_other)),
             (ascii ''price'',
                VInt (case int_of_str L (get_text em_elem) of Some n \<Rightarrow> n | None \<Rightarrow> 0))]))"
proof (intro conjI impI)
  show "\<exists>r. parse_listing L item = Return r"
    by (rule parse_listing_returns)
next
  assume found:
    "find_one item (ascii ''p'') (Some (ascii ''content__list--item--title'')) = Some title_elem
      \<and> find_one item (ascii ''p'') (Some (ascii ''content__list--item--des'')) = None
      \<and> find_one item (ascii ''p'') (Some (ascii ''content__list--item--bottom'')) = None
      \<and> find_one item (ascii ''p'') (Some (ascii ''content__list--item--brand'')) = None
      \<and> find_one item (ascii ''span'') (Some (ascii ''content__list--item-price''))
           = Some price_elem
      \<and> find_one price_elem (ascii ''em'') None = Some em_elem"
  then show "parse_listing L item = Return (Some
            [(ascii ''title'', VStr (get_text title_elem)),
             (ascii ''rent_type'',
                VStr (if contains rent_whole (get_text title_elem) then rent_whole
                      else if contains rent_shared (get_text title_elem) then rent_shared
                      else rent_other)),
             (ascii ''price'',
                VInt (case int_of_str L (get_text em_elem) of Some n \<Rightarrow> n | None \<Rightarrow> 0))])"
    using keys_distinct
    by (simp add: parse_listing_def parse_listing_body_def parse_title_def parse_des_def
        parse_tags_def parse_platform_def parse_price_def py_int_def Let_def
        split: option.splits)
qed

theorem parse_listing_title_and_price_witness:
  "parse_listing ascii_lib item_bad_price =
     Return (Some [(ascii ''title'', VStr (ascii ''Room B'')),
                   (ascii ''rent_type'', VStr rent_other),
                   (ascii ''price'', VInt 0)])"
proof -
  let ?title = "Tag (ascii ''p'') [ascii ''content__list--item--title'']
                  [NavigableString (ascii ''Room B'')]"
  let ?em = "Tag (ascii ''em'') [] [NavigableString (ascii ''4500-5000'')]"
  let ?price = "Tag (ascii ''span'') [ascii ''content__list--item-price''] [?em]"
  have found:
    "find_one item_bad_price (ascii ''p'') (Some (ascii ''content__list--item--title''))
       = Some ?title
     \<and> find_one item_bad_price (ascii ''p'') (Some (ascii ''content__list--item--des'')) = None
     \<and> find_one item_bad_price (ascii ''p'') (Some (ascii ''content__list--item--bottom'')) = None
     \<and> find_one item_bad_price (ascii ''p'') (Some (ascii ''content__list--item--brand'')) = None
     \<and> find_one item_bad_price (ascii ''span'') (Some (ascii ''content__list--item-price''))
         = Some ?price
     \<and> find_one ?price (ascii ''em'') None = Some ?em"
    by (simp add: sample_defs)
  have vals: "get_text ?title = ascii ''Room B''" "int_of_str ascii_lib (get_text ?em) = None"
    "\<not> contains rent_whole (ascii ''Room B'')" "\<not> contains rent_shared (ascii ''Room B'')"
    by (simp_all add: sample_defs Let_def)
  from parse_listing_title_and_price [of ascii_lib item_bad_price ?title ?price ?em] found
  have "parse_listing ascii_lib item_bad_price = Return (Some
            [(ascii ''title'', VStr (get_text ?title)),
             (ascii ''rent_type'',
                VStr (if contains rent_whole (get_text ?title) then rent_whole
                      else if contains rent_shared (get_text ?title) then rent_shared
                      else rent_other)),
             (ascii ''price'',
                VInt (case int_of_str ascii_lib (get_text ?em) of Some n \<Rightarrow> n | None \<Rightarrow> 0))])"
    by blast
  then show ?thesis
    by (simp add: vals)
qed

text \<open>
  The claim as stated fails on a fragment that holds a title element and a price element
  and nothing else: the record returned has a third field, the rent type, whose value
  (whole) is read from the title and is not the fallback value (other).
\<close>

theorem parse_listing_title_and_price_counterexample:
  "find_one item_title_price (ascii ''p'') (Some (ascii ''content__list--item--des'')) = None
   \<and> find_one item_title_price (ascii ''p'') (Some (ascii ''content__list--item--bottom'')) = None
   \<and> find_one item_title_price (ascii ''p'') (Some (ascii ''content__list--item--brand'')) = None
   \<and> parse_listing ascii_lib item_title_price =
       Return (Some [(ascii ''title'', VStr (rent_whole @ ascii '' A 2-1'')),
                     (ascii ''rent_type'', VStr rent_whole),
                     (ascii ''price'', VInt 5000)])
   \<and> ascii ''rent_type'' \<notin> {ascii ''title'', ascii ''price''}
   \<and> rent_whole \<noteq> rent_other"
  by (simp add: parse_listing_def parse_listing_body_def parse_title_def parse_des_def
      parse_tags_def parse_platform_def parse_price_def sample_defs Let_def)

text \<open>
  Claim C7. When the price element and its \<^verbatim>\<open>em\<close> are found and the text of the
  \<^verbatim>\<open>em\<close> is not a valid integer (\<^verbatim>\<open>int\<close> raises \<^verbatim>\<open>ValueError\<close>), the extraction does
  not fail on that account: whenever the description block raises nothing, a record is
  returned and its price is 0; and \<^verbatim>\<open>None\<close> is returned only when the description
  block has raised (an unguarded \<^verbatim>\<open>int\<close> or \<^verbatim>\<open>float\<close> there), never because of the
  price.
\<close>

theorem parse_listing_price_not_an_integer:
  assumes "find_one item (ascii ''span'') (Some (ascii ''content__list--item-price''))
             = Some price_elem"
    and "find_one price_elem (ascii ''em'') None = Some em_elem"
    and "int_of_str L (get_text em_elem) = None"
  shows "(\<forall>l. parse_des L item (parse_title item []) = Return l \<longrightarrow>
            (\<exists>listing. parse_listing L item = Return (Some listing)
                \<and> map_of listing (ascii ''price'') = Some (VInt 0)))
       \<and> (parse_listing L item = Return None \<longrightarrow>
            (\<exists>e. parse_des L item (parse_title item []) = Raise e))"
  using assms
  by (auto simp: parse_listing_def parse_listing_body_def parse_price_def py_int_def
      update_conv' split: outcome.splits)

theorem parse_listing_price_not_an_integer_witness:
  "\<exists>listing. parse_listing ascii_lib item_bad_price = Return (Some listing)
      \<and> map_of listing (ascii ''price'') = Some (VInt 0)"
proof -
  let ?em = "Tag (ascii ''em'') [] [NavigableString (ascii ''4500-5000'')]"
  let ?price = "Tag (ascii ''span'') [ascii ''content__list--item-price''] [?em]"
  have p: "find_one item_bad_price (ascii ''span'')
             (Some (ascii ''content__list--item-price'')) = Some ?price"
    and em: "find_one ?price (ascii ''em'') None = Some ?em"
    and bad: "int_of_str ascii_lib (get_text ?em) = None"
    by (simp_all add: sample_defs Let_def)
  have des: "parse_des ascii_lib item_bad_price (parse_title item_bad_price [])
               = Return (parse_title item_bad_price [])"
    by (simp add: parse_des_def sample_defs)
  from parse_listing_price_not_an_integer [OF p em bad] des show ?thesis
    by blast
qed

section \<open>Properties of the persistence writer\<close>



lemma set_unseen: "set (unseen seen xs) = set xs - set seen"
  by (induction xs arbitrary: seen) auto


lemma set_first_occurrences [simp]: "set (first_occurrences xs) = set xs"
  by (simp add: first_occurrences_def set_unseen)









text \<open>
  Claim C10. Called with an empty list, \<^verbatim>\<open>save_to_csv\<close> returns \<^verbatim>\<open>None\<close> and leaves
  the file system as it was, whatever the file name and the append flag: no directory
  and no file is created, and an existing destination keeps its text.
\<close>

theorem save_to_csv_empty:
  "save_to_csv io fs [] filename appending = (Return None, fs)"
  by (simp add: save_to_csv_def)

theorem save_to_csv_empty_witness:
  "save_to_csv example_io example_fs [] None True = (Return None, example_fs)"
  by (rule save_to_csv_empty)



section \<open>Properties of the cleaning step\<close>











section \<open>Properties of the command line\<close>

text \<open>A range whose start lies after its end has no page: nothing is fetched, nothing is
  skipped, and the crawl returns the empty list.\<close>

lemma crawl_empty_range:
  assumes "end_page < start_page"
  shows "crawl scrape_page start_page end_page = crawl_init"
  using assms by (simp add: crawl_def)

lemma scrape_page_range_empty_range:
  assumes "end_page < start_page"
  shows "scrape_page_range scrape_page fs start_page end_page = (Return [], fs)"
  using assms by (simp add: scrape_page_range_def crawl_def crawl_init_def Let_def)

text \<open>The two-argument form checks the range: with a start after the end, \<^verbatim>\<open>main\<close>
  prints its error message and returns before the spider is built.\<close>

lemma main_two_arguments_rejected:
  assumes "int_of a = Some start_page" and "int_of b = Some end_page"
    and "start_page > end_page"
  shows "main int_of io scrape_page fs [prog, a, b] stdin
           = \<lparr>printed = [ErrBadRange], requested = [], fs_after = fs, ended = Return ()\<rparr>"
  using assms by (simp add: main_def py_int_def)

text \<open>The one-argument form has no such check: with an end page below 1, the start
  being 1, \<^verbatim>\<open>main\<close> announces the crawl, runs it over the empty range and reports that
  there is no data; no error message is printed.\<close>

lemma main_one_argument_below_one:
  assumes "int_of a = Some end_page" and "end_page < 1"
  shows "main int_of io scrape_page fs [prog, a] stdin
           = \<lparr>printed = [MsgStart 1 end_page, MsgExpected end_page, MsgRule, MsgNoData],
              requested = [], fs_after = fs, ended = Return ()\<rparr>"
  using assms crawl_empty_range [of end_page 1 scrape_page]
    scrape_page_range_empty_range [of end_page 1 scrape_page fs]
  by (simp add: main_def py_int_def crawl_and_save_def crawl_init_def Let_def)

text \<open>
  Claim C4, at the input it fails on. The claim: for every start and end page with the
  start after the end given on the command line, the one-argument form included, the
  program prints an error message and exits before any fetch. Run with the one argument
  \<^verbatim>\<open>0\<close> (start 1, end 0), \<^verbatim>\<open>main\<close> fetches nothing, but it prints no error message
  and does not exit early: it prints the announcement of the crawl of the pages 1 to 0,
  crawls the empty range, and ends with the message that no data was obtained.
\<close>

theorem main_one_argument_zero:
  "main ascii_int io scrape_page fs [prog, ascii ''0''] stdin
     = \<lparr>printed = [MsgStart 1 0, MsgExpected 0, MsgRule, MsgNoData],
        requested = [], fs_after = fs, ended = Return ()\<rparr>"
proof -
  have "ascii_int (ascii ''0'') = Some 0"
    by (simp add: ascii_int_def ascii_def strip_def isspace_def Let_def)
  then show ?thesis
    by (rule main_one_argument_below_one) simp
qed

theorem main_one_argument_zero_witness:
  "printed (main ascii_int example_io (\<lambda>p. [[(ascii ''price'', VInt p)]]) example_fs
              [ascii ''run_scraper.py'', ascii ''0''] [])
     = [MsgStart 1 0, MsgExpected 0, MsgRule, MsgNoData]
   \<and> ErrBadRange \<notin> set (printed (main ascii_int example_io (\<lambda>p. [[(ascii ''price'', VInt p)]])
                                   example_fs [ascii ''run_scraper.py'', ascii ''0''] []))"
  by (simp add: main_one_argument_zero)

end
